theory Spec2Isabelle
  imports Complex_Main
begin

section \<open>The button component (frontend/src/componenets/Button.vue)\<close>

subsection \<open>Props, emitted events and reactive state\<close>

datatype Variant = primary | secondary

datatype Size = sm | md | lg

text \<open>
  \<^verbatim>\<open>interface ButtonProps\<close>. The field \<^verbatim>\<open>size\<close> is written \<open>size'\<close>: HOL has a
  constant \<open>size\<close> of its own.
\<close>

record ButtonProps =
  variant :: Variant
  size' :: Size
  disabled :: bool

text \<open>
  \<^verbatim>\<open>withDefaults(defineProps<ButtonProps>(), {...})\<close>: every prop is optional, and an
  absent one takes its default.
\<close>

definition withDefaults :: "Variant option \<Rightarrow> Size option \<Rightarrow> bool option \<Rightarrow> ButtonProps" where
  "withDefaults v s d =
     \<lparr>variant = (case v of None \<Rightarrow> primary | Some x \<Rightarrow> x),
      size' = (case s of None \<Rightarrow> md | Some x \<Rightarrow> x),
      disabled = (case d of None \<Rightarrow> False | Some x \<Rightarrow> x)\<rparr>"

text \<open>
  \<^verbatim>\<open>defineEmits<{ click: [event: MouseEvent] }>()\<close>: the one notification the component
  sends to its parent. The handlers never look inside the mouse event, so its type is a
  parameter.
\<close>

datatype 'e emitted = click 'e

text \<open>The component instance: its props and the two refs of the script.\<close>

record Button =
  props :: ButtonProps
  isHovered :: bool
  isPressed :: bool

text \<open>A fresh instance: \<^verbatim>\<open>isHovered = ref(false)\<close>, \<^verbatim>\<open>isPressed = ref(false)\<close>.\<close>

definition mount :: "ButtonProps \<Rightarrow> Button" where
  "mount p = \<lparr>props = p, isHovered = False, isPressed = False\<rparr>"

subsection \<open>Handlers\<close>

text \<open>
  A handler takes the instance and returns what it emitted, in order, with the instance
  after it. None of the handlers has a \<^verbatim>\<open>throw\<close> or a call that can fail, so there is no
  error component in the result.
\<close>

type_synonym 'e handler = "Button \<Rightarrow> 'e emitted list \<times> Button"

definition emit :: "'e emitted \<Rightarrow> 'e handler" where
  "emit n c = ([n], c)"

definition handleClick :: "'e \<Rightarrow> 'e handler" where
  "handleClick event c = (if \<not> disabled (props c) then emit (click event) c else ([], c))"

definition handleMouseLeave :: "'e handler" where
  "handleMouseLeave c =
     (let c1 = c\<lparr>isHovered := False\<rparr>;
          c2 = c1\<lparr>isPressed := False\<rparr>
      in ([], c2))"

text \<open>The inline handlers of the template.\<close>

definition on_mouseenter :: "'e handler" where
  "on_mouseenter c = ([], c\<lparr>isHovered := True\<rparr>)"

definition on_mousedown :: "'e handler" where
  "on_mousedown c = ([], c\<lparr>isPressed := True\<rparr>)"

definition on_mouseup :: "'e handler" where
  "on_mouseup c = ([], c\<lparr>isPressed := False\<rparr>)"

text \<open>
  What can happen to a mounted instance: one of the five DOM events the template listens
  to, or the parent binding new props (\<^verbatim>\<open>:disabled="isLoading"\<close> in App.vue), which
  replaces the props and leaves the refs alone.
\<close>

datatype 'e input =
    DomClick 'e
  | MouseEnter
  | MouseLeave
  | MouseDown
  | MouseUp
  | PropsUpdate ButtonProps

fun dispatch :: "'e input \<Rightarrow> 'e handler" where
  "dispatch (DomClick event) c = handleClick event c"
| "dispatch MouseEnter c = on_mouseenter c"
| "dispatch MouseLeave c = handleMouseLeave c"
| "dispatch MouseDown c = on_mousedown c"
| "dispatch MouseUp c = on_mouseup c"
| "dispatch (PropsUpdate p) c = ([], c\<lparr>props := p\<rparr>)"

fun run :: "'e input list \<Rightarrow> 'e handler" where
  "run [] c = ([], c)"
| "run (i # evs) c =
     (let (out1, c1) = dispatch i c;
          (out2, c2) = run evs c1
      in (out1 @ out2, c2))"

subsection \<open>The computed class list\<close>

text \<open>
  An element of the arrays \<^verbatim>\<open>buttonClasses\<close> concatenates: a string, or the \<^verbatim>\<open>false\<close>
  that \<^verbatim>\<open>cond && 'str'\<close> leaves when the condition fails.
\<close>

datatype entry = JFalse | JStr string

definition and_str :: "bool \<Rightarrow> string \<Rightarrow> entry" where
  "and_str b s = (if b then JStr s else JFalse)"

text \<open>\<^verbatim>\<open>Boolean(x)\<close>: \<^verbatim>\<open>false\<close> and the empty string are falsy.\<close>

fun Boolean :: "entry \<Rightarrow> bool" where
  "Boolean JFalse = False"
| "Boolean (JStr s) = (s \<noteq> [])"

definition baseClasses :: "entry list" where
  "baseClasses =
     [JStr ''inline-flex'', JStr ''items-center'', JStr ''justify-center'',
      JStr ''font-medium'', JStr ''transition-all'', JStr ''duration-300'',
      JStr ''ease-out'', JStr ''outline-none'', JStr ''select-none'',
      JStr ''relative'', JStr ''overflow-hidden'']"

fun sizeClasses :: "Button \<Rightarrow> Size \<Rightarrow> entry list" where
  "sizeClasses c sm =
     [JStr ''w-20'', JStr ''h-8'', JStr ''text-xs'',
      if isHovered c then JStr ''rounded-md'' else JStr ''rounded-xl'']"
| "sizeClasses c md =
     [JStr ''w-30'', JStr ''h-10'', JStr ''text-sm'',
      if isHovered c then JStr ''rounded-lg'' else JStr ''rounded-2xl'']"
| "sizeClasses c lg =
     [JStr ''w-40'', JStr ''h-12'', JStr ''text-base'',
      if isHovered c then JStr ''rounded-xl'' else JStr ''rounded-3xl'']"

fun variantClasses :: "Button \<Rightarrow> Variant \<Rightarrow> entry list" where
  "variantClasses c primary =
     [if disabled (props c)
        then JStr ''bg-gray-300 text-gray-500 cursor-not-allowed''
        else JStr ''bg-canvas-accent text-white cursor-pointer'',
      and_str (\<not> disabled (props c) \<and> isHovered c) ''shadow-lg shadow-canvas-accent/30'',
      and_str (\<not> disabled (props c) \<and> isPressed c) ''scale-95'',
      and_str (\<not> disabled (props c) \<and> isHovered c \<and> \<not> isPressed c)
        ''scale-102 -translate-y-0.5'']"
| "variantClasses c secondary =
     [if disabled (props c)
        then JStr ''bg-gray-100 text-gray-400 border border-gray-200 cursor-not-allowed''
        else JStr ''bg-canvas-surface text-canvas-text border border-gray-200 cursor-pointer hover:border-gray-300'',
      and_str (\<not> disabled (props c) \<and> isHovered c) ''shadow-lg shadow-black/10'',
      and_str (\<not> disabled (props c) \<and> isPressed c) ''scale-95'',
      and_str (\<not> disabled (props c) \<and> isHovered c \<and> \<not> isPressed c)
        ''scale-101 -translate-y-0.5'']"

definition buttonClasses :: "Button \<Rightarrow> entry list" where
  "buttonClasses c =
     filter Boolean
       (baseClasses @ sizeClasses c (size' (props c)) @ variantClasses c (variant (props c)))"

text \<open>The five classes that render a hover or a press.\<close>

definition effect_classes :: "entry list" where
  "effect_classes =
     [JStr ''scale-95'',
      JStr ''shadow-lg shadow-canvas-accent/30'',
      JStr ''shadow-lg shadow-black/10'',
      JStr ''scale-102 -translate-y-0.5'',
      JStr ''scale-101 -translate-y-0.5'']"

section \<open>The connectivity probe (App.vue)\<close>

subsection \<open>Values, errors and the response\<close>

text \<open>
  A JavaScript value as \<^verbatim>\<open>response.json()\<close> can resolve to, with \<^verbatim>\<open>undefined\<close> for
  what reading a missing property gives. An object is its list of members in the order
  of the text; where a key occurs twice the later member is the one a read finds. A
  number is read as the real it denotes.
\<close>

datatype js_value =
    JUndefined
  | JNull
  | JBoolean bool
  | JNumber real
  | JString string
  | JArray "js_value list"
  | JObject "(string \<times> js_value) list"

text \<open>What the \<^verbatim>\<open>try\<close> block can throw, by where it comes from.\<close>

datatype js_error =
    FetchRejected
  | JsonRejected
  | TypeError
  | HttpError nat

text \<open>
  \<^verbatim>\<open>data.backend_status\<close> and \<^verbatim>\<open>data.message\<close>: reading a property of \<^verbatim>\<open>null\<close> or
  \<^verbatim>\<open>undefined\<close> throws a TypeError; an object gives the member's value, or \<^verbatim>\<open>undefined\<close>
  when it has none of that name; a boolean, number, string or array has neither of the
  two names the source reads, so gives \<^verbatim>\<open>undefined\<close>.
\<close>

fun get_prop :: "js_value \<Rightarrow> string \<Rightarrow> js_error + js_value" where
  "get_prop JUndefined k = Inl TypeError"
| "get_prop JNull k = Inl TypeError"
| "get_prop (JObject members) k =
     Inr (case map_of (rev members) k of None \<Rightarrow> JUndefined | Some v \<Rightarrow> v)"
| "get_prop (JBoolean b) k = Inr JUndefined"
| "get_prop (JNumber n) k = Inr JUndefined"
| "get_prop (JString t) k = Inr JUndefined"
| "get_prop (JArray vs) k = Inr JUndefined"

text \<open>
  The part of a fetch \<^verbatim>\<open>Response\<close> the source reads: the status code and what awaiting
  \<^verbatim>\<open>response.json()\<close> gives, the parsed body or a rejection. \<^verbatim>\<open>response.ok\<close> is true for
  a status from 200 to 299.
\<close>

record Response =
  status :: nat
  json :: "js_error + js_value"

definition ok :: "Response \<Rightarrow> bool" where
  "ok response = (200 \<le> status response \<and> status response \<le> 299)"

subsection \<open>Reactive state\<close>

text \<open>The four refs of the script, and the lines written with \<^verbatim>\<open>console.error\<close>.\<close>

record App =
  backendStatus :: js_value
  backendMessage :: js_value
  isConnected :: bool
  isLoading :: bool
  console :: "(string \<times> js_error) list"

definition script_setup :: App where
  "script_setup =
     \<lparr>backendStatus = JString ''checking...'',
      backendMessage = JString ''Connecting to backend...'',
      isConnected = False,
      isLoading = True,
      console = []\<rparr>"

text \<open>What the template reads: the four refs.\<close>

definition shown :: "App \<Rightarrow> js_value \<times> js_value \<times> bool \<times> bool" where
  "shown s = (backendStatus s, backendMessage s, isConnected s, isLoading s)"

subsection \<open>testBackendConnection\<close>

text \<open>
  A block of statements runs on the state and either completes or throws; the state it
  leaves is returned in both cases, since assignments made before a throw stay.
\<close>

type_synonym block = "App \<Rightarrow> (js_error + unit) \<times> App"

text \<open>
  \<^verbatim>\<open>try { body } catch (error) { handler } finally { final }\<close>: the handler runs when
  the body throws, the final block runs in every case, and the statement throws only
  what the final block throws or, failing that, what the handler throws.
\<close>

definition try_catch_finally :: "block \<Rightarrow> (js_error \<Rightarrow> block) \<Rightarrow> block \<Rightarrow> block" where
  "try_catch_finally body handler final s =
     (let (r1, s1) = body s;
          (r2, s2) = (case r1 of Inl error \<Rightarrow> handler error s1 | Inr u \<Rightarrow> (Inr u, s1));
          (r3, s3) = final s2
      in (case r3 of Inl error \<Rightarrow> (Inl error, s3) | Inr u \<Rightarrow> (r2, s3)))"

text \<open>
  The function suspends once, at \<^verbatim>\<open>await fetch(...)\<close>. \<open>at_await\<close> is the state it has
  reached there: line 17 has run, and nothing before the await can throw. This is the
  state the page shows while the request is under way.
\<close>

definition at_await :: "App \<Rightarrow> App" where
  "at_await s = s\<lparr>isLoading := True\<rparr>"

text \<open>
  The rest of the \<^verbatim>\<open>try\<close> block, from the await on. The parameter is how the request
  settled: a rejection of \<^verbatim>\<open>fetch\<close>, or the response.
\<close>

definition try_block :: "js_error + Response \<Rightarrow> block" where
  "try_block fetched s =
     (let s1 = at_await s in
      case fetched of
        Inl error \<Rightarrow> (Inl error, s1)
      | Inr response \<Rightarrow>
          if ok response then
            (case json response of
               Inl error \<Rightarrow> (Inl error, s1)
             | Inr data \<Rightarrow>
                 (case get_prop data ''backend_status'' of
                    Inl error \<Rightarrow> (Inl error, s1)
                  | Inr v \<Rightarrow>
                      let s2 = s1\<lparr>backendStatus := v\<rparr> in
                      (case get_prop data ''message'' of
                         Inl error \<Rightarrow> (Inl error, s2)
                       | Inr m \<Rightarrow>
                           let s3 = s2\<lparr>backendMessage := m\<rparr>;
                               s4 = s3\<lparr>isConnected := True\<rparr>
                           in (Inr (), s4))))
          else (Inl (HttpError (status response)), s1))"

definition catch_block :: "js_error \<Rightarrow> block" where
  "catch_block error s =
     (let s1 = s\<lparr>console := console s @ [(''Backend connection failed:'', error)]\<rparr>;
          s2 = s1\<lparr>backendStatus := JString ''disconnected''\<rparr>;
          s3 = s2\<lparr>backendMessage := JString ''Failed to connect to backend''\<rparr>;
          s4 = s3\<lparr>isConnected := False\<rparr>
      in (Inr (), s4))"

definition finally_block :: block where
  "finally_block s = (Inr (), s\<lparr>isLoading := False\<rparr>)"

definition testBackendConnection :: "js_error + Response \<Rightarrow> block" where
  "testBackendConnection fetched =
     try_catch_finally (try_block fetched) catch_block finally_block"

section \<open>Properties of the button\<close>

text \<open>
  C1. For every instance and every event, \<open>handleClick\<close> emits exactly one \<open>click\<close>
  carrying the event it was given if and only if \<open>disabled\<close> is false when it is called;
  when \<open>disabled\<close> is true it emits nothing. The handler is a total function with no
  error result, so neither branch raises.
\<close>

theorem handleClick_emits_iff_enabled:
  "(fst (handleClick ev c) = [click ev]) = (\<not> disabled (props c)) \<and>
   (fst (handleClick ev c) = []) = disabled (props c)"
  by (simp add: handleClick_def emit_def)

theorem handleClick_emits_iff_enabled_witness:
  "fst (handleClick (7::nat) (mount (withDefaults None None None))) = [click 7] \<and>
   fst (handleClick (7::nat) (mount (withDefaults None None (Some True)))) = []"
  using handleClick_emits_iff_enabled [of "7::nat" "mount (withDefaults None None None)"]
        handleClick_emits_iff_enabled [of "7::nat" "mount (withDefaults None None (Some True))"]
  by (simp add: mount_def withDefaults_def)

text \<open>
  C7. For every instance, right after \<open>handleMouseLeave\<close> both \<open>isHovered\<close> and
  \<open>isPressed\<close> are false, whatever they were before: a pointer that leaves the control
  never leaves it pressed.
\<close>

theorem handleMouseLeave_clears_hover_and_press:
  "\<not> isHovered (snd (handleMouseLeave c)) \<and> \<not> isPressed (snd (handleMouseLeave c))"
  by (simp add: handleMouseLeave_def)

text \<open>
  C9. For every instance and every event, \<open>handleClick\<close> returns the instance it was
  given: props (\<open>variant\<close>, \<open>size\<close>, \<open>disabled\<close>), \<open>isHovered\<close> and \<open>isPressed\<close> are the
  same before and after, in the emitting and in the suppressed branch.
\<close>

theorem handleClick_frame:
  "snd (handleClick ev c) = c"
  by (simp add: handleClick_def emit_def)

text \<open>
  What the guards of \<open>variantClasses\<close> achieve. Each of its hover and press entries
  starts with \<^verbatim>\<open>!props.disabled &&\<close>, so for every instance with \<open>disabled\<close> true,
  whatever \<open>isHovered\<close>, \<open>isPressed\<close>, \<open>variant\<close> and \<open>size\<close> are, the class list
  holds none of the five effect classes, and \<open>isPressed\<close> has no influence on it.
\<close>

lemma disabled_buttonClasses_no_effect:
  assumes "disabled (props c)"
  shows "set (buttonClasses c) \<inter> set effect_classes = {}"
proof -
  have "set (variantClasses c v) \<inter> set effect_classes = {}" for v
    using assms by (cases v) (simp_all add: effect_classes_def and_str_def)
  moreover have "set (sizeClasses c s) \<inter> set effect_classes = {}" for s
    by (cases s) (simp_all add: effect_classes_def)
  moreover have "set baseClasses \<inter> set effect_classes = {}"
    by (simp add: baseClasses_def effect_classes_def)
  ultimately show ?thesis
    unfolding buttonClasses_def by auto
qed

lemma disabled_buttonClasses_ignore_press:
  assumes "disabled (props c)"
  shows "buttonClasses (c\<lparr>isPressed := b\<rparr>) = buttonClasses c"
proof -
  have "variantClasses (c\<lparr>isPressed := b\<rparr>) v = variantClasses c v" for v
    using assms by (cases v) (simp_all add: and_str_def)
  moreover have "sizeClasses (c\<lparr>isPressed := b\<rparr>) s = sizeClasses c s" for s
    by (cases s) simp_all
  ultimately show ?thesis
    by (simp add: buttonClasses_def)
qed

text \<open>
  What they miss. The fourth entry of each \<open>sizeClasses\<close> array,
  \<^verbatim>\<open>isHovered.value ? 'rounded-..' : 'rounded-..'\<close>, has no such guard: for every
  disabled instance, of any variant and size, the class list with \<open>isHovered\<close> true is
  not the class list with \<open>isHovered\<close> false.
\<close>

lemma disabled_buttonClasses_follow_hover:
  assumes "disabled (props c)"
  shows "buttonClasses (c\<lparr>isHovered := True\<rparr>) \<noteq> buttonClasses (c\<lparr>isHovered := False\<rparr>)"
proof -
  have v: "variantClasses (c\<lparr>isHovered := h\<rparr>) (variant (props c)) =
        [if variant (props c) = primary
           then JStr ''bg-gray-300 text-gray-500 cursor-not-allowed''
           else JStr ''bg-gray-100 text-gray-400 border border-gray-200 cursor-not-allowed'',
         JFalse, JFalse, JFalse]" for h
    using assms by (cases "variant (props c)") (simp_all add: and_str_def)
  show ?thesis
    by (cases "size' (props c)") (simp_all add: buttonClasses_def baseClasses_def v)
qed

text \<open>
  C10. The claim: a control with \<open>disabled\<close> true never renders press or hover effect
  styling, whatever \<open>isHovered\<close> and \<open>isPressed\<close> are. The code, on the primary, medium
  control of App that the user hovers and clicks and that its parent then disables
  (\<^verbatim>\<open>@click="testBackendConnection" :disabled="isLoading"\<close>): the instance is disabled
  and hovered, and its class list holds the hover rounding \<^verbatim>\<open>rounded-lg\<close>, not the
  resting \<^verbatim>\<open>rounded-2xl\<close>, which comes back only once the pointer leaves. The five
  effect classes the claim lists are absent, as it says; the hover styling is not.
\<close>

theorem disabled_hovered_renders_hover_rounding:
  "(let c = snd (run [MouseEnter, MouseDown, MouseUp, DomClick (7::nat),
                      PropsUpdate (withDefaults (Some primary) (Some md) (Some True))]
                   (mount (withDefaults (Some primary) (Some md) None)))
    in disabled (props c) \<and> isHovered c \<and>
       JStr ''rounded-lg'' \<in> set (buttonClasses c) \<and>
       JStr ''rounded-2xl'' \<notin> set (buttonClasses c) \<and>
       JStr ''rounded-2xl'' \<in> set (buttonClasses (snd ((handleMouseLeave :: nat handler) c))) \<and>
       JStr ''rounded-lg'' \<notin> set (buttonClasses (snd ((handleMouseLeave :: nat handler) c))))"
  by (simp add: mount_def withDefaults_def on_mouseenter_def on_mousedown_def on_mouseup_def
      handleClick_def emit_def handleMouseLeave_def buttonClasses_def baseClasses_def and_str_def)

text \<open>
  The guard on \<open>disabled\<close> is what keeps the effect classes out: the same hovered and
  pressed control, enabled, renders two of them.
\<close>

lemma enabled_buttonClasses_render_effect:
  "JStr ''scale-95'' \<in> set (buttonClasses
      \<lparr>props = withDefaults None None None, isHovered = True, isPressed = True\<rparr>) \<and>
   JStr ''shadow-lg shadow-canvas-accent/30'' \<in> set (buttonClasses
      \<lparr>props = withDefaults None None None, isHovered = True, isPressed = True\<rparr>)"
  by (simp add: buttonClasses_def withDefaults_def and_str_def)

text \<open>Running one list of inputs after another is running their concatenation.\<close>

lemma run_append: "snd (run (xs @ ys) c) = snd (run ys (snd (run xs c)))"
  by (induction xs arbitrary: c) (simp_all add: split_def Let_def)

text \<open>
  C4, as the claim states it, fails: the inline handlers of \<^verbatim>\<open>mouseenter\<close> and
  \<^verbatim>\<open>mousedown\<close> assign \<^verbatim>\<open>true\<close> without reading \<open>disabled\<close>, so two pointer events on
  a control mounted with \<open>disabled = true\<close> leave it hovered and pressed; and a control
  that is hovered stays hovered when its parent then disables it.
\<close>

theorem disabled_does_not_clear_flags_counterexample:
  "disabled (props (snd (run [MouseEnter, MouseDown :: nat input]
       (mount (withDefaults None None (Some True)))))) \<and>
   isHovered (snd (run [MouseEnter, MouseDown :: nat input]
       (mount (withDefaults None None (Some True))))) \<and>
   isPressed (snd (run [MouseEnter, MouseDown :: nat input]
       (mount (withDefaults None None (Some True))))) \<and>
   disabled (props (snd (run [MouseEnter :: nat input, PropsUpdate (withDefaults None None (Some True))]
       (mount (withDefaults None None None))))) \<and>
   isHovered (snd (run [MouseEnter :: nat input, PropsUpdate (withDefaults None None (Some True))]
       (mount (withDefaults None None None))))"
  by (simp add: mount_def withDefaults_def on_mouseenter_def on_mousedown_def)

text \<open>
  C4, amended. In every state reached from a fresh mount by any sequence of inputs,
  \<open>isHovered\<close> and \<open>isPressed\<close> are false whenever the pointer is outside the control:
  no \<^verbatim>\<open>mouseenter\<close> and no \<^verbatim>\<open>mousedown\<close> has been handled since the last
  \<^verbatim>\<open>mouseleave\<close>, or since the mount when there was none. The props, \<open>disabled\<close> among
  them, play no part in it.
\<close>

theorem flags_false_while_pointer_outside:
  assumes "\<forall>i \<in> set (takeWhile (\<lambda>i. i \<noteq> MouseLeave) (rev evs)). i \<noteq> MouseEnter \<and> i \<noteq> MouseDown"
  shows "\<not> isHovered (snd (run evs (mount p))) \<and> \<not> isPressed (snd (run evs (mount p)))"
  using assms
proof (induction evs rule: rev_induct)
  case Nil
  then show ?case by (simp add: mount_def)
next
  case (snoc i evs)
  show ?case
  proof (cases "i = MouseLeave")
    case True
    then show ?thesis by (simp add: run_append split_def handleMouseLeave_def)
  next
    case False
    with snoc.prems have "i \<noteq> MouseEnter" "i \<noteq> MouseDown"
      and "\<forall>j \<in> set (takeWhile (\<lambda>i. i \<noteq> MouseLeave) (rev evs)). j \<noteq> MouseEnter \<and> j \<noteq> MouseDown"
      by simp_all
    with snoc.IH have "\<not> isHovered (snd (run evs (mount p))) \<and> \<not> isPressed (snd (run evs (mount p)))"
      by simp
    with False \<open>i \<noteq> MouseEnter\<close> \<open>i \<noteq> MouseDown\<close> show ?thesis
      by (cases i) (simp_all add: run_append split_def handleClick_def emit_def on_mouseup_def)
  qed
qed

theorem flags_false_while_pointer_outside_witness:
  "\<not> isHovered (snd (run [MouseEnter, MouseDown, MouseLeave, DomClick (7::nat), MouseUp]
       (mount (withDefaults None None (Some True))))) \<and>
   \<not> isPressed (snd (run [MouseEnter, MouseDown, MouseLeave, DomClick (7::nat), MouseUp]
       (mount (withDefaults None None (Some True)))))"
proof -
  have h: "\<forall>i \<in> set (takeWhile (\<lambda>i. i \<noteq> MouseLeave)
              (rev [MouseEnter, MouseDown, MouseLeave, DomClick (7::nat), MouseUp])).
            i \<noteq> MouseEnter \<and> i \<noteq> MouseDown"
    by simp
  show ?thesis
    by (rule flags_false_while_pointer_outside [OF h])
qed

section \<open>Properties of the probe\<close>

lemmas probe_defs =
  testBackendConnection_def try_catch_finally_def try_block_def catch_block_def
  finally_block_def at_await_def Let_def

text \<open>
  C2. Whatever the state at the call, each failure of the request ends in the same four
  refs: a rejection of \<^verbatim>\<open>fetch\<close> (transport), a response whose status is not 2xx, and
  a response whose body does not parse all leave status \<^verbatim>\<open>'disconnected'\<close>, message
  \<^verbatim>\<open>'Failed to connect to backend'\<close>, \<open>isConnected\<close> false and \<open>isLoading\<close> false.
\<close>

theorem failures_collapse_to_disconnected:
  "shown (snd (testBackendConnection (Inl e) s)) =
     (JString ''disconnected'', JString ''Failed to connect to backend'', False, False) \<and>
   (\<not> ok r \<longrightarrow> shown (snd (testBackendConnection (Inr r) s)) =
     (JString ''disconnected'', JString ''Failed to connect to backend'', False, False)) \<and>
   (json r = Inl e' \<longrightarrow> shown (snd (testBackendConnection (Inr r) s)) =
     (JString ''disconnected'', JString ''Failed to connect to backend'', False, False))"
  by (simp add: probe_defs shown_def)

theorem failures_collapse_to_disconnected_witness:
  "shown (snd (testBackendConnection (Inl FetchRejected) script_setup)) =
     (JString ''disconnected'', JString ''Failed to connect to backend'', False, False) \<and>
   shown (snd (testBackendConnection (Inr \<lparr>status = 500, json = Inr JNull\<rparr>) script_setup)) =
     (JString ''disconnected'', JString ''Failed to connect to backend'', False, False) \<and>
   shown (snd (testBackendConnection (Inr \<lparr>status = 200, json = Inl JsonRejected\<rparr>) script_setup)) =
     (JString ''disconnected'', JString ''Failed to connect to backend'', False, False)"
  using failures_collapse_to_disconnected
          [of FetchRejected script_setup "\<lparr>status = 500, json = Inr JNull\<rparr>" JsonRejected]
        failures_collapse_to_disconnected
          [of FetchRejected script_setup "\<lparr>status = 200, json = Inl JsonRejected\<rparr>" JsonRejected]
  by (simp add: ok_def)

text \<open>
  C3. When the response has a 2xx status and its body parses to an object with members
  \<^verbatim>\<open>backend_status\<close> and \<^verbatim>\<open>message\<close>, the call completes without throwing and leaves
  the status label at the one member's value, the message at the other's, \<open>isConnected\<close>
  true and \<open>isLoading\<close> false; nothing is logged.
\<close>

theorem success_sets_connected:
  assumes "ok r"
    and "json r = Inr (JObject members)"
    and "map_of (rev members) ''backend_status'' = Some st"
    and "map_of (rev members) ''message'' = Some m"
  shows "testBackendConnection (Inr r) s =
     (Inr (), s\<lparr>backendStatus := st, backendMessage := m, isConnected := True, isLoading := False\<rparr>)"
  using assms by (simp add: probe_defs)

theorem success_sets_connected_witness:
  "testBackendConnection
     (Inr \<lparr>status = 200,
           json = Inr (JObject [(''backend_status'', JString ''ok''), (''message'', JString ''ready'')])\<rparr>)
     script_setup =
   (Inr (), script_setup\<lparr>backendStatus := JString ''ok'', backendMessage := JString ''ready'',
                          isConnected := True, isLoading := False\<rparr>)"
proof -
  let ?members = "[(''backend_status'', JString ''ok''), (''message'', JString ''ready'')]"
  let ?r = "\<lparr>status = 200, json = Inr (JObject ?members)\<rparr>"
  have h1: "ok ?r" by (simp add: ok_def)
  have h2: "json ?r = Inr (JObject ?members)" by simp
  have h3: "map_of (rev ?members) ''backend_status'' = Some (JString ''ok'')" by simp
  have h4: "map_of (rev ?members) ''message'' = Some (JString ''ready'')" by simp
  show ?thesis
    by (rule success_sets_connected [OF h1 h2 h3 h4])
qed

text \<open>
  C5, as the claim states it, fails: nothing checks the shape of the parsed body. A 200
  response whose body is the object \<^verbatim>\<open>{"status": "ok"}\<close>, with neither field, completes
  without throwing and leaves \<open>isConnected\<close> true, with status label and message both
  \<^verbatim>\<open>undefined\<close>.
\<close>

theorem missing_fields_still_connect_counterexample:
  "fst (testBackendConnection
          (Inr \<lparr>status = 200, json = Inr (JObject [(''status'', JString ''ok'')])\<rparr>)
          script_setup) = Inr () \<and>
   shown (snd (testBackendConnection
          (Inr \<lparr>status = 200, json = Inr (JObject [(''status'', JString ''ok'')])\<rparr>)
          script_setup)) = (JUndefined, JUndefined, True, False)"
  by (simp add: probe_defs shown_def ok_def script_setup_def)

text \<open>
  C5, amended. For a 2xx response, the outcome is the failure state only when the body
  does not parse or parses to \<^verbatim>\<open>null\<close> (or \<^verbatim>\<open>undefined\<close>), where reading a property
  throws. Every other parsed body, an object without the two fields among them, gives
  the connected state: the call completes without throwing, status label and message are
  what reading \<^verbatim>\<open>backend_status\<close> and \<^verbatim>\<open>message\<close> from the body gives (\<^verbatim>\<open>undefined\<close>
  for a missing field), \<open>isConnected\<close> is true and \<open>isLoading\<close> false.
\<close>

theorem body_shape_outcome:
  assumes "ok r"
  shows
    "(json r = Inl e \<or> json r = Inr JNull \<or> json r = Inr JUndefined \<longrightarrow>
        shown (snd (testBackendConnection (Inr r) s)) =
          (JString ''disconnected'', JString ''Failed to connect to backend'', False, False)) \<and>
     (json r = Inr d \<and> d \<noteq> JNull \<and> d \<noteq> JUndefined \<longrightarrow>
        fst (testBackendConnection (Inr r) s) = Inr () \<and>
        get_prop d ''backend_status'' = Inr (backendStatus (snd (testBackendConnection (Inr r) s))) \<and>
        get_prop d ''message'' = Inr (backendMessage (snd (testBackendConnection (Inr r) s))) \<and>
        isConnected (snd (testBackendConnection (Inr r) s)) \<and>
        \<not> isLoading (snd (testBackendConnection (Inr r) s)))"
proof -
  have "shown (snd (testBackendConnection (Inr r) s)) =
          (JString ''disconnected'', JString ''Failed to connect to backend'', False, False)"
    if "json r = Inl e \<or> json r = Inr JNull \<or> json r = Inr JUndefined"
    using that assms by (auto simp add: probe_defs shown_def)
  moreover have
    "fst (testBackendConnection (Inr r) s) = Inr () \<and>
     get_prop d ''backend_status'' = Inr (backendStatus (snd (testBackendConnection (Inr r) s))) \<and>
     get_prop d ''message'' = Inr (backendMessage (snd (testBackendConnection (Inr r) s))) \<and>
     isConnected (snd (testBackendConnection (Inr r) s)) \<and>
     \<not> isLoading (snd (testBackendConnection (Inr r) s))"
    if "json r = Inr d" "d \<noteq> JNull" "d \<noteq> JUndefined"
    using that assms by (cases d) (simp_all add: probe_defs)
  ultimately show ?thesis by blast
qed

theorem body_shape_outcome_witness:
  "shown (snd (testBackendConnection (Inr \<lparr>status = 204, json = Inr JNull\<rparr>) script_setup)) =
     (JString ''disconnected'', JString ''Failed to connect to backend'', False, False) \<and>
   fst (testBackendConnection (Inr \<lparr>status = 200, json = Inr (JArray [])\<rparr>) script_setup) = Inr () \<and>
   backendStatus (snd (testBackendConnection (Inr \<lparr>status = 200, json = Inr (JArray [])\<rparr>) script_setup))
     = JUndefined \<and>
   isConnected (snd (testBackendConnection (Inr \<lparr>status = 200, json = Inr (JArray [])\<rparr>) script_setup))"
proof -
  have h1: "ok \<lparr>status = 204, json = Inr JNull\<rparr>" by (simp add: ok_def)
  have h2: "ok \<lparr>status = 200, json = Inr (JArray [])\<rparr>" by (simp add: ok_def)
  show ?thesis
    using body_shape_outcome [OF h1, of JsonRejected script_setup JNull]
          body_shape_outcome [OF h2, of JsonRejected script_setup "JArray []"]
    by simp
qed

text \<open>
  C6, as the claim states it, fails on a re-invocation: before the await the function
  assigns \<open>isLoading\<close> only. Called again after a failed check, it waits for the request
  with status \<^verbatim>\<open>'disconnected'\<close> and message \<^verbatim>\<open>'Failed to connect to backend'\<close> still
  in the refs, not \<^verbatim>\<open>'Connecting to backend...'\<close>.
\<close>

theorem recheck_keeps_old_message_counterexample:
  "shown (at_await (snd (testBackendConnection (Inl FetchRejected) script_setup))) =
     (JString ''disconnected'', JString ''Failed to connect to backend'', False, True) \<and>
   backendMessage (at_await (snd (testBackendConnection (Inl FetchRejected) script_setup)))
     \<noteq> JString ''Connecting to backend...''"
  by (simp add: probe_defs shown_def script_setup_def)

text \<open>
  C6, amended. Before the request the function sets \<open>isLoading\<close> to true and changes no
  other ref. For the call at mount, which starts from the refs as the script creates
  them, the state during the call is status \<^verbatim>\<open>'checking...'\<close>, message
  \<^verbatim>\<open>'Connecting to backend...'\<close>, not connected, loading; on a later call the status,
  the message and \<open>isConnected\<close> of the previous result stay until the request settles.
\<close>

theorem at_await_shows_checking_at_mount:
  "shown (at_await script_setup) =
     (JString ''checking...'', JString ''Connecting to backend...'', False, True) \<and>
   shown (at_await s) = (backendStatus s, backendMessage s, isConnected s, True)"
  by (simp add: at_await_def shown_def script_setup_def)

text \<open>
  C8. For every way the request can settle (a rejection of \<^verbatim>\<open>fetch\<close>, a response of any
  status, a body that parses or not) and every state at the call, the function completes
  without throwing to its caller and leaves \<open>isLoading\<close> false. The model is a total
  function of how the request settled: given that, the call always returns.
\<close>

theorem testBackendConnection_completes:
  "fst (testBackendConnection fetched s) = Inr () \<and>
   \<not> isLoading (snd (testBackendConnection fetched s))"
  by (simp add: testBackendConnection_def try_catch_finally_def catch_block_def finally_block_def
      split: prod.splits sum.splits)

end
